theory Spec2Isabelle
  imports Main "HOL-Library.Word"
begin

section \<open>Shared types\<close>

text \<open>
  The C++ types of the sources: \<open>unsigned\<close> is a 32-bit word, \<open>unsigned char\<close> an
  8-bit word and \<open>uint64_t\<close> a 64-bit word; arithmetic on them wraps around.
\<close>

type_synonym unsigned = "32 word"
type_synonym uchar = "8 word"
type_synonym uint64_t = "64 word"

text \<open>
  An identifier cannot end in an underscore here: a member such as \<open>state_\<close> of the
  sources is written with a prime after it.
\<close>

text \<open>
  The three stages that \<open>AlignWorkflow::step\<close> runs, and the ways in which the modelled
  functions stop without returning: a failed \<open>ISAAC_ASSERT_MSG\<close> or \<open>assert\<close>, a thrown
  \<open>common::PreConditionException\<close>, and an exception escaping from a stage.
\<close>

datatype stage = FindMatches | GenerateAlignmentReports | GenerateBam

datatype error = AssertionFailed | PreConditionException | StageFailed stage

section \<open>alignment/Quality.hh\<close>

definition REPEAT_ALIGNMENT_SCORE :: unsigned where
  "REPEAT_ALIGNMENT_SCORE = 3"

definition UNKNOWN_ALIGNMENT_SCORE :: unsigned where
  "UNKNOWN_ALIGNMENT_SCORE = - 1"

definition UNKNOWN_MAPQ :: uchar where
  "UNKNOWN_MAPQ = 255"

definition MAX_MAPQ :: uchar where
  "MAX_MAPQ = 60"

definition isUnique :: "unsigned \<Rightarrow> bool" where
  "isUnique alignmentScore = (REPEAT_ALIGNMENT_SCORE < alignmentScore)"

text \<open>
  \<open>std::min<unsigned>(MAX_MAPQ, alignmentScore)\<close> widens \<open>MAX_MAPQ\<close> to \<open>unsigned\<close>; the
  \<open>return\<close> narrows the minimum to \<open>unsigned char\<close>.
\<close>

definition alignmentScoreToMapq :: "unsigned \<Rightarrow> error + uchar" where
  "alignmentScoreToMapq alignmentScore =
     (if UNKNOWN_ALIGNMENT_SCORE = alignmentScore then Inl AssertionFailed
      else Inr (ucast (min (ucast MAX_MAPQ :: unsigned) alignmentScore)))"

definition pickMapQ :: "unsigned \<Rightarrow> unsigned \<Rightarrow> bool \<Rightarrow> unsigned \<Rightarrow> error + uchar" where
  "pickMapQ alignmentScore mateAlignmentScore properPair templateAlignmentScore =
     (if UNKNOWN_ALIGNMENT_SCORE = alignmentScore then Inl AssertionFailed
      else if UNKNOWN_ALIGNMENT_SCORE = mateAlignmentScore then Inl AssertionFailed
      else if UNKNOWN_ALIGNMENT_SCORE = templateAlignmentScore then Inl AssertionFailed
      else alignmentScoreToMapq
             (if properPair
              then max alignmentScore (min templateAlignmentScore mateAlignmentScore)
              else alignmentScore))"

definition pickMapQFromMate :: "uchar \<Rightarrow> unsigned \<Rightarrow> error + uchar" where
  "pickMapQFromMate mateMapQ templateAlignmentScore =
     (if UNKNOWN_MAPQ = mateMapQ then Inl AssertionFailed
      else if UNKNOWN_ALIGNMENT_SCORE = templateAlignmentScore then Inl AssertionFailed
      else (case alignmentScoreToMapq templateAlignmentScore of
              Inl e \<Rightarrow> Inl e
            | Inr templateMapQ \<Rightarrow> Inr (min templateMapQ mateMapQ)))"

text \<open>
  The remaining functions of \<open>Quality.hh\<close> (\<open>computeAlignmentScore\<close>,
  \<open>restOfGenomeCorrection\<close>, \<open>getLogMismatchSlow\<close> and the lookups in the
  \<open>logErrorLookup\<close>, \<open>logMatchLookup\<close> and \<open>logMismatchLookup\<close> tables) compute in
  \<open>double\<close> with \<open>log\<close>, \<open>log10\<close>, \<open>exp\<close>, \<open>pow\<close> and \<open>floor\<close>; they have
  no counterpart here.
\<close>

section \<open>statistics/MatchFinderTileStats.hh\<close>

record MatchFinderTileStats =
  uniqueMatchSeeds_' :: uint64_t
  noMatchSeeds_' :: uint64_t
  repeatMatchSeeds_' :: uint64_t
  tooManyRepeatsSeeds_' :: uint64_t
  repeatMatches_' :: uint64_t

text \<open>The default constructor.\<close>

definition MatchFinderTileStats_new :: MatchFinderTileStats where
  "MatchFinderTileStats_new =
     \<lparr>uniqueMatchSeeds_' = 0, noMatchSeeds_' = 0, repeatMatchSeeds_' = 0,
      tooManyRepeatsSeeds_' = 0, repeatMatches_' = 0\<rparr>"

text \<open>\<open>operator +\<close>: the left operand is taken by value, updated field by field and returned.\<close>

definition plus_stats :: "MatchFinderTileStats \<Rightarrow> MatchFinderTileStats \<Rightarrow> MatchFinderTileStats" where
  "plus_stats left right =
     left\<lparr>uniqueMatchSeeds_' := uniqueMatchSeeds_' left + uniqueMatchSeeds_' right,
          noMatchSeeds_' := noMatchSeeds_' left + noMatchSeeds_' right,
          repeatMatchSeeds_' := repeatMatchSeeds_' left + repeatMatchSeeds_' right,
          tooManyRepeatsSeeds_' := tooManyRepeatsSeeds_' left + tooManyRepeatsSeeds_' right,
          repeatMatches_' := repeatMatches_' left + repeatMatches_' right\<rparr>"

section \<open>reference/SortedReferenceMetadata.hh\<close>

definition OLDEST_SUPPORTED_REFERENCE_FORMAT_VERSION :: unsigned where
  "OLDEST_SUPPORTED_REFERENCE_FORMAT_VERSION = 3"

definition CURRENT_REFERENCE_FORMAT_VERSION :: unsigned where
  "CURRENT_REFERENCE_FORMAT_VERSION = 9"

text \<open>
  A \<open>boost::filesystem::path\<close> is kept as the string it holds; two paths made from the
  same string are equal.
\<close>

type_synonym fs_path = string

record Contig =
  index_' :: unsigned
  name_' :: string
  decoy_' :: bool
  filePath_' :: fs_path
  offset_' :: uint64_t
  size_' :: uint64_t
  genomicPosition_' :: uint64_t
  totalBases_' :: uint64_t
  acgtBases_' :: uint64_t
  bamSqAs_' :: string
  bamSqUr_' :: string
  bamM5_' :: string

text \<open>The constructor of \<open>Contig\<close> that takes every field, in the order of its parameters.\<close>

definition Contig_new ::
  "unsigned \<Rightarrow> string \<Rightarrow> bool \<Rightarrow> fs_path \<Rightarrow> uint64_t \<Rightarrow> uint64_t \<Rightarrow> uint64_t \<Rightarrow> uint64_t \<Rightarrow>
   uint64_t \<Rightarrow> string \<Rightarrow> string \<Rightarrow> string \<Rightarrow> Contig" where
  "Contig_new index name decoy filePath offset size' genomicPosition totalBases acgtBases
     bamSqAs bamSqUr bamM5 =
     \<lparr>index_' = index, name_' = name, decoy_' = decoy, filePath_' = filePath,
      offset_' = offset, size_' = size', genomicPosition_' = genomicPosition,
      totalBases_' = totalBases, acgtBases_' = acgtBases,
      bamSqAs_' = bamSqAs, bamSqUr_' = bamSqUr, bamM5_' = bamM5\<rparr>"

text \<open>\<open>Contig::operator ==\<close>, with \<open>this\<close> as the first argument.\<close>

definition Contig_eq :: "Contig \<Rightarrow> Contig \<Rightarrow> bool" where
  "Contig_eq this that =
     (index_' this = index_' that \<and>
      name_' this = name_' that \<and>
      decoy_' this = decoy_' that \<and>
      ((bamM5_' this = [] \<and> filePath_' this = filePath_' that) \<or> bamM5_' this = bamM5_' that) \<and>
      offset_' this = offset_' that \<and>
      size_' this = size_' that \<and> genomicPosition_' this = genomicPosition_' that \<and>
      totalBases_' this = totalBases_' that \<and>
      acgtBases_' this = acgtBases_' that \<and> bamSqAs_' this = bamSqAs_' that \<and>
      bamSqUr_' this = bamSqUr_' that)"

record MaskFile =
  path :: fs_path
  maskWidth :: unsigned
  mask_' :: unsigned
  kmers :: uint64_t

datatype AnnotationFile_Type = Unknown | KUniqueness | KRepeatness

record AnnotationFile =
  type_' :: AnnotationFile_Type
  path_' :: fs_path
  k_' :: unsigned

record SortedReferenceMetadata =
  maskFiles_' :: "unsigned \<rightharpoonup> MaskFile list"
  annotationFiles_' :: "AnnotationFile list"
  contigs_' :: "Contig list"
  formatVersion_' :: unsigned

text \<open>The default constructor: the containers start empty.\<close>

definition SortedReferenceMetadata_new :: SortedReferenceMetadata where
  "SortedReferenceMetadata_new =
     \<lparr>maskFiles_' = Map.empty, annotationFiles_' = [], contigs_' = [],
      formatVersion_' = CURRENT_REFERENCE_FORMAT_VERSION\<rparr>"

section \<open>workflow/AlignWorkflow.cpp\<close>

text \<open>
  The enumeration \<open>AlignWorkflow::State\<close> is declared in \<open>workflow/AlignWorkflow.hh\<close>,
  which is not among the sources. Its enumerators are therefore a parameter: a state is
  the integer value of an enumerator, and \<open>State_enum\<close> gives the value of each of the
  seven names that \<open>AlignWorkflow.cpp\<close> uses.
\<close>

type_synonym State = int

record State_enum =
  Invalid :: State
  Last :: State
  Start :: State
  AlignDone :: State
  AlignmentReportsDone :: State
  BamDone :: State
  Finish :: State

text \<open>
  C++ rejects a \<open>switch\<close> with two equal case labels. The labels of \<open>getNextState\<close>,
  \<open>step\<close> and \<open>cleanupIntermediary\<close> are \<open>Start\<close>, \<open>AlignDone\<close>,
  \<open>AlignmentReportsDone\<close> and \<open>Finish\<close>; those of \<open>rewind\<close> are \<open>Last\<close>, \<open>Start\<close>,
  \<open>AlignDone\<close>, \<open>AlignmentReportsDone\<close> and \<open>BamDone\<close>. No \<open>switch\<close> has both
  \<open>BamDone\<close> and \<open>Finish\<close>, so the file compiles whether or not they are the same value.
\<close>

definition valid_enum :: "State_enum \<Rightarrow> bool" where
  "valid_enum E =
     (distinct [Start E, AlignDone E, AlignmentReportsDone E, Finish E] \<and>
      distinct [Last E, Start E, AlignDone E, AlignmentReportsDone E, BamDone E])"

definition getNextState :: "State_enum \<Rightarrow> State \<Rightarrow> error + State" where
  "getNextState E state_' =
     (if state_' = Start E then Inr (AlignDone E)
      else if state_' = AlignDone E then Inr (AlignmentReportsDone E)
      else if state_' = AlignmentReportsDone E then Inr (BamDone E)
      else if state_' = Finish E then Inr (Finish E)
      else Inl AssertionFailed)"

text \<open>
  \<open>step\<close> runs the stage of the current state and then assigns \<open>getNextState()\<close> to
  \<open>state_\<close>; the value returned is the new \<open>state_\<close>. The stages themselves
  (\<open>findMatches\<close>, \<open>generateAlignmentReports\<close>, \<open>generateBam\<close>) work on files:
  \<open>completes\<close> tells which of them return normally. A stage that throws leaves
  \<open>state_\<close> as it was and the exception leaves \<open>step\<close>.
\<close>

definition step :: "State_enum \<Rightarrow> (stage \<Rightarrow> bool) \<Rightarrow> State \<Rightarrow> error + State" where
  "step E completes state_' =
     (if state_' = Start E then
        (if completes FindMatches then getNextState E state_'
         else Inl (StageFailed FindMatches))
      else if state_' = AlignDone E then
        (if completes GenerateAlignmentReports then getNextState E state_'
         else Inl (StageFailed GenerateAlignmentReports))
      else if state_' = AlignmentReportsDone E then
        (if completes GenerateBam then getNextState E state_'
         else Inl (StageFailed GenerateBam))
      else if state_' = Finish E then Inr state_'
      else Inl AssertionFailed)"

text \<open>\<open>n\<close> successive calls of \<open>step\<close>, stopping at the first one that does not return.\<close>

primrec steps :: "State_enum \<Rightarrow> (stage \<Rightarrow> bool) \<Rightarrow> nat \<Rightarrow> State \<Rightarrow> error + State" where
  "steps E completes 0 state_' = Inr state_'"
| "steps E completes (Suc n) state_' =
     (case step E completes state_' of
        Inl e \<Rightarrow> Inl e
      | Inr s \<Rightarrow> steps E completes n s)"

definition run :: "State_enum \<Rightarrow> (stage \<Rightarrow> bool) \<Rightarrow> State \<Rightarrow> error + State" where
  "run E completes state_' =
     (if Start E \<noteq> state_' then Inl AssertionFailed
      else case step E completes state_' of
        Inl e \<Rightarrow> Inl e
      | Inr s1 \<Rightarrow>
          if AlignDone E \<noteq> s1 then Inl AssertionFailed
          else case step E completes s1 of
            Inl e \<Rightarrow> Inl e
          | Inr s2 \<Rightarrow>
              if AlignmentReportsDone E \<noteq> s2 then Inl AssertionFailed
              else case step E completes s2 of
                Inl e \<Rightarrow> Inl e
              | Inr s3 \<Rightarrow> if BamDone E \<noteq> s3 then Inl AssertionFailed else Inr s3)"

text \<open>
  \<open>rewind\<close> gives the pair of the \<open>state_\<close> it leaves behind and its outcome: the
  value returned (the \<open>state_\<close> before the call) or the exception thrown. Every
  \<open>BOOST_THROW_EXCEPTION\<close> comes before the assignment to \<open>state_\<close>. The \<open>default\<close>
  branch is \<open>assert(false)\<close>, taken here as compiled in (no \<open>NDEBUG\<close>).
\<close>

definition rewind :: "State_enum \<Rightarrow> State \<Rightarrow> State \<Rightarrow> State \<times> (error + State)" where
  "rewind E to state_' =
     (let ret = state_' in
      if to = Last E then (state_', Inr ret)
      else if to = Start E then (Start E, Inr ret)
      else if to = AlignDone E then
        (if Start E = state_' then (state_', Inl PreConditionException)
         else (AlignDone E, Inr ret))
      else if to = AlignmentReportsDone E then
        (if Start E = state_' then (state_', Inl PreConditionException)
         else if AlignDone E = state_' then (state_', Inl PreConditionException)
         else (AlignmentReportsDone E, Inr ret))
      else if to = BamDone E then
        (if Start E = state_' then (state_', Inl PreConditionException)
         else if AlignDone E = state_' then (state_', Inl PreConditionException)
         else if AlignmentReportsDone E = state_' then (state_', Inl PreConditionException)
         else (BamDone E, Inr ret))
      else (state_', Inl AssertionFailed))"

text \<open>
  The states in the order in which \<open>step\<close> goes through them; a state is ahead of
  another when it comes later in this list.
\<close>

definition chain :: "State_enum \<Rightarrow> State list" where
  "chain E = [Start E, AlignDone E, AlignmentReportsDone E, BamDone E]"

text \<open>
  An instance of the parameter: \<open>Finish\<close> is a second name of \<open>BamDone\<close>. This is the
  reading that \<open>run\<close> suggests, which asserts \<open>BamDone\<close> after the third \<open>step\<close> and
  stops there.
\<close>

definition aliasStates :: State_enum where
  "aliasStates =
     \<lparr>Invalid = - 2, Last = - 1, Start = 0, AlignDone = 1, AlignmentReportsDone = 2,
      BamDone = 3, Finish = 3\<rparr>"

text \<open>
  Modelled from the spec: the enumeration \<open>State\<close> of \<open>workflow/AlignWorkflow.hh\<close>, which
  is missing from the sources, as the specification describes it: a chain of five
  different states Start, Aligned, Reported, Written, Done, here \<open>Start\<close>, \<open>AlignDone\<close>,
  \<open>AlignmentReportsDone\<close>, \<open>BamDone\<close> and \<open>Finish\<close>.
\<close>

definition fiveStates :: State_enum where
  "fiveStates =
     \<lparr>Invalid = - 2, Last = - 1, Start = 0, AlignDone = 1, AlignmentReportsDone = 2,
      BamDone = 3, Finish = 4\<rparr>"

text \<open>The case in which every stage returns normally.\<close>

definition allComplete :: "stage \<Rightarrow> bool" where
  "allComplete st = True"

section \<open>Properties of the mapping quality functions\<close>

lemma unat_min_word: "unat (min a b) = min (unat a) (unat b)"
  for a b :: "'a::len word"
  by (simp add: min_def word_le_nat_alt)

lemma unat_max_word: "unat (max a b) = max (unat a) (unat b)"
  for a b :: "'a::len word"
  by (simp add: max_def word_le_nat_alt)

lemma alignmentScoreToMapq_value:
  "s \<noteq> UNKNOWN_ALIGNMENT_SCORE \<Longrightarrow>
     \<exists>q. alignmentScoreToMapq s = Inr q \<and> unat q = min 60 (unat s)"
  by (auto simp: alignmentScoreToMapq_def MAX_MAPQ_def unsigned_ucast_eq unat_min_word
        take_bit_nat_eq_self_iff)

text \<open>
  Claim C6. A fragment is unique exactly when its alignment score exceeds
  \<open>REPEAT_ALIGNMENT_SCORE\<close>, which is 3: \<open>isUnique s\<close> holds if and only if \<open>s > 3\<close>.
\<close>

theorem isUnique_iff_above_3:
  "unat REPEAT_ALIGNMENT_SCORE = 3 \<and> isUnique s = (3 < unat s)"
  by (simp add: isUnique_def REPEAT_ALIGNMENT_SCORE_def word_less_nat_alt)

lemma pickMapQ_value:
  assumes "a \<noteq> UNKNOWN_ALIGNMENT_SCORE" "m \<noteq> UNKNOWN_ALIGNMENT_SCORE"
    "t \<noteq> UNKNOWN_ALIGNMENT_SCORE"
  shows "\<exists>q. pickMapQ a m pp t = Inr q \<and>
           unat q = (if pp then min 60 (max (unat a) (min (unat t) (unat m)))
                     else min 60 (unat a))"
proof (cases pp)
  case True
  have "min t m \<noteq> UNKNOWN_ALIGNMENT_SCORE"
    using assms by (auto simp: min_def)
  then have "max a (min t m) \<noteq> UNKNOWN_ALIGNMENT_SCORE"
    using assms by (auto simp: max_def)
  from alignmentScoreToMapq_value [OF this] show ?thesis
    using assms True by (auto simp: pickMapQ_def unat_min_word unat_max_word)
next
  case False
  from alignmentScoreToMapq_value [OF assms(1)] show ?thesis
    using assms False by (auto simp: pickMapQ_def)
qed

lemma pickMapQFromMate_value:
  assumes "mq \<noteq> UNKNOWN_MAPQ" "t \<noteq> UNKNOWN_ALIGNMENT_SCORE"
  shows "\<exists>q. pickMapQFromMate mq t = Inr q \<and> unat q = min (min 60 (unat t)) (unat mq)"
  using alignmentScoreToMapq_value [OF assms(2)] assms
  by (auto simp: pickMapQFromMate_def unat_min_word)

lemma mapq_below_61_not_unknown: "unat q \<le> 60 \<Longrightarrow> q \<noteq> UNKNOWN_MAPQ"
  by (auto simp: UNKNOWN_MAPQ_def)

text \<open>
  Claim C1. For scores that are not \<open>UNKNOWN_ALIGNMENT_SCORE\<close>, \<open>pickMapQ\<close> returns
  \<open>min(60, max(fragmentScore, min(templateScore, mateFragmentScore)))\<close> for a proper
  pair and \<open>min(60, fragmentScore)\<close> otherwise; for a mate MAPQ that is not
  \<open>UNKNOWN_MAPQ\<close>, \<open>pickMapQFromMate\<close> returns
  \<open>min(min(60, templateScore), mateMapQ)\<close>. In each case the function returns: no
  assertion fails.
\<close>

theorem pickMapQ_case_analysis:
  assumes "a \<noteq> UNKNOWN_ALIGNMENT_SCORE" "m \<noteq> UNKNOWN_ALIGNMENT_SCORE"
    "t \<noteq> UNKNOWN_ALIGNMENT_SCORE" "mq \<noteq> UNKNOWN_MAPQ"
  shows "(\<exists>q. pickMapQ a m True t = Inr q \<and>
              unat q = min 60 (max (unat a) (min (unat t) (unat m)))) \<and>
         (\<exists>q. pickMapQ a m False t = Inr q \<and> unat q = min 60 (unat a)) \<and>
         (\<exists>q. pickMapQFromMate mq t = Inr q \<and>
              unat q = min (min 60 (unat t)) (unat mq))"
  using pickMapQ_value [OF assms(1-3), of True] pickMapQ_value [OF assms(1-3), of False]
    pickMapQFromMate_value [OF assms(4,3)]
  by simp

theorem pickMapQ_case_analysis_witness:
  "(2 :: unsigned) \<noteq> UNKNOWN_ALIGNMENT_SCORE \<and> (50 :: unsigned) \<noteq> UNKNOWN_ALIGNMENT_SCORE \<and>
   (40 :: unsigned) \<noteq> UNKNOWN_ALIGNMENT_SCORE \<and> (30 :: uchar) \<noteq> UNKNOWN_MAPQ \<and>
   pickMapQ 2 50 True 40 = Inr 40 \<and>
   pickMapQ 2 50 False 40 = Inr 2 \<and>
   pickMapQFromMate 30 40 = Inr 30"
proof -
  have h: "(2 :: unsigned) \<noteq> UNKNOWN_ALIGNMENT_SCORE" "(50 :: unsigned) \<noteq> UNKNOWN_ALIGNMENT_SCORE"
    "(40 :: unsigned) \<noteq> UNKNOWN_ALIGNMENT_SCORE" "(30 :: uchar) \<noteq> UNKNOWN_MAPQ"
    by (simp_all add: UNKNOWN_ALIGNMENT_SCORE_def UNKNOWN_MAPQ_def)
  show ?thesis
    using h pickMapQ_case_analysis [OF h]
    by (simp add: pickMapQ_def pickMapQFromMate_def alignmentScoreToMapq_def MAX_MAPQ_def)
qed

text \<open>
  Claim C5. For an alignment score, mate score, template score and mate MAPQ that are
  not the UNKNOWN value, \<open>alignmentScoreToMapq\<close>, \<open>pickMapQ\<close> and \<open>pickMapQFromMate\<close>
  return a value between 0 and 60; \<open>UNKNOWN_MAPQ\<close>, which is 255, is never returned.
\<close>

theorem mapq_in_range:
  assumes "a \<noteq> UNKNOWN_ALIGNMENT_SCORE" "m \<noteq> UNKNOWN_ALIGNMENT_SCORE"
    "t \<noteq> UNKNOWN_ALIGNMENT_SCORE" "mq \<noteq> UNKNOWN_MAPQ"
  shows "(\<exists>q. alignmentScoreToMapq a = Inr q \<and> unat q \<le> 60 \<and> q \<noteq> UNKNOWN_MAPQ) \<and>
         (\<exists>q. pickMapQ a m pp t = Inr q \<and> unat q \<le> 60 \<and> q \<noteq> UNKNOWN_MAPQ) \<and>
         (\<exists>q. pickMapQFromMate mq t = Inr q \<and> unat q \<le> 60 \<and> q \<noteq> UNKNOWN_MAPQ) \<and>
         unat MAX_MAPQ = 60 \<and> unat UNKNOWN_MAPQ = 255"
proof -
  obtain q1 where q1: "alignmentScoreToMapq a = Inr q1" "unat q1 = min 60 (unat a)"
    using alignmentScoreToMapq_value [OF assms(1)] by blast
  obtain q2 where q2: "pickMapQ a m pp t = Inr q2"
    "unat q2 = (if pp then min 60 (max (unat a) (min (unat t) (unat m))) else min 60 (unat a))"
    using pickMapQ_value [OF assms(1-3)] by blast
  obtain q3 where q3: "pickMapQFromMate mq t = Inr q3"
    "unat q3 = min (min 60 (unat t)) (unat mq)"
    using pickMapQFromMate_value [OF assms(4,3)] by blast
  have b1: "unat q1 \<le> 60" using q1(2) by simp
  have b2: "unat q2 \<le> 60" using q2(2) by (simp split: if_splits)
  have b3: "unat q3 \<le> 60" using q3(2) by simp
  have c: "unat MAX_MAPQ = 60" "unat UNKNOWN_MAPQ = 255"
    by (simp_all add: MAX_MAPQ_def UNKNOWN_MAPQ_def)
  show ?thesis
    using q1(1) q2(1) q3(1) b1 b2 b3 c
      mapq_below_61_not_unknown [OF b1] mapq_below_61_not_unknown [OF b2]
      mapq_below_61_not_unknown [OF b3]
    by simp
qed

theorem mapq_in_range_witness:
  "(1000 :: unsigned) \<noteq> UNKNOWN_ALIGNMENT_SCORE \<and> (7 :: unsigned) \<noteq> UNKNOWN_ALIGNMENT_SCORE \<and>
   (4000000000 :: unsigned) \<noteq> UNKNOWN_ALIGNMENT_SCORE \<and> (254 :: uchar) \<noteq> UNKNOWN_MAPQ \<and>
   alignmentScoreToMapq 1000 = Inr 60 \<and>
   pickMapQ 1000 7 True 4000000000 = Inr 60 \<and>
   pickMapQFromMate 254 4000000000 = Inr 60"
proof -
  have h: "(1000 :: unsigned) \<noteq> UNKNOWN_ALIGNMENT_SCORE" "(7 :: unsigned) \<noteq> UNKNOWN_ALIGNMENT_SCORE"
    "(4000000000 :: unsigned) \<noteq> UNKNOWN_ALIGNMENT_SCORE" "(254 :: uchar) \<noteq> UNKNOWN_MAPQ"
    by (simp_all add: UNKNOWN_ALIGNMENT_SCORE_def UNKNOWN_MAPQ_def)
  show ?thesis
    using h mapq_in_range [OF h, of True]
    by (simp add: pickMapQ_def pickMapQFromMate_def alignmentScoreToMapq_def MAX_MAPQ_def)
qed

section \<open>Properties of the match finder statistics\<close>

text \<open>
  Claim C9. \<open>MatchFinderTileStats\<close> holds the five counters (unique-match seeds,
  no-match seeds, repeat-match seeds, too-many-repeats seeds, repeat matches), each zero
  after construction; \<open>operator +\<close> adds two values counter by counter. The addition is
  therefore commutative and associative, and the default-constructed value is its
  identity on both sides.
\<close>

theorem MatchFinderTileStats_plus:
  "MatchFinderTileStats_new =
     \<lparr>uniqueMatchSeeds_' = 0, noMatchSeeds_' = 0, repeatMatchSeeds_' = 0,
      tooManyRepeatsSeeds_' = 0, repeatMatches_' = 0\<rparr> \<and>
   plus_stats a b =
     \<lparr>uniqueMatchSeeds_' = uniqueMatchSeeds_' a + uniqueMatchSeeds_' b,
      noMatchSeeds_' = noMatchSeeds_' a + noMatchSeeds_' b,
      repeatMatchSeeds_' = repeatMatchSeeds_' a + repeatMatchSeeds_' b,
      tooManyRepeatsSeeds_' = tooManyRepeatsSeeds_' a + tooManyRepeatsSeeds_' b,
      repeatMatches_' = repeatMatches_' a + repeatMatches_' b\<rparr> \<and>
   plus_stats a b = plus_stats b a \<and>
   plus_stats (plus_stats a b) c = plus_stats a (plus_stats b c) \<and>
   plus_stats a MatchFinderTileStats_new = a \<and>
   plus_stats MatchFinderTileStats_new a = a"
  by (simp add: plus_stats_def MatchFinderTileStats_new_def add.commute add.assoc)

section \<open>Properties of the reference metadata\<close>

text \<open>
  Claim C8. The oldest supported reference format version is 3, the current one is 9,
  and a freshly constructed \<open>SortedReferenceMetadata\<close> has the current version, 9.
\<close>

theorem reference_format_versions:
  "unat OLDEST_SUPPORTED_REFERENCE_FORMAT_VERSION = 3 \<and>
   unat CURRENT_REFERENCE_FORMAT_VERSION = 9 \<and>
   formatVersion_' SortedReferenceMetadata_new = CURRENT_REFERENCE_FORMAT_VERSION \<and>
   unat (formatVersion_' SortedReferenceMetadata_new) = 9"
  by (simp add: OLDEST_SUPPORTED_REFERENCE_FORMAT_VERSION_def
      CURRENT_REFERENCE_FORMAT_VERSION_def SortedReferenceMetadata_new_def)

text \<open>
  \<open>Contig::operator ==\<close> compares file paths only when the left operand has no MD5
  digest. When both operands have one, or neither has, the order of the operands does
  not matter.
\<close>

lemma Contig_eq_commute_same_kind:
  "(bamM5_' a = []) = (bamM5_' b = []) \<Longrightarrow> Contig_eq a b = Contig_eq b a"
  by (auto simp: Contig_eq_def)

text \<open>
  Claim C10. Equality of contigs should be symmetric: \<open>a == b\<close> and \<open>b == a\<close> should
  agree, also when exactly one of the two has an empty \<open>bamM5_\<close>. The operator does not
  have this property. Two contigs that differ only in \<open>bamM5_\<close>, empty in the first and
  not in the second, compare equal with the first on the left, where the file paths are
  compared, and unequal with the second on the left, where the digests are.
\<close>

theorem Contig_eq_not_symmetric:
  "Contig_eq (Contig_new 0 ''chr1'' False ''genome.fa'' 0 100 0 100 100 [] [] [])
             (Contig_new 0 ''chr1'' False ''genome.fa'' 0 100 0 100 100 [] [] ''abc'') \<and>
   \<not> Contig_eq (Contig_new 0 ''chr1'' False ''genome.fa'' 0 100 0 100 100 [] [] ''abc'')
               (Contig_new 0 ''chr1'' False ''genome.fa'' 0 100 0 100 100 [] [] [])"
  by (simp add: Contig_eq_def Contig_new_def)

section \<open>Properties of the workflow state machine\<close>

lemma valid_enum_aliasStates: "valid_enum aliasStates"
  by (simp add: valid_enum_def aliasStates_def)

lemma valid_enum_rewind_labels:
  assumes "valid_enum E"
  shows "Last E \<noteq> Start E" "Last E \<noteq> AlignDone E" "Last E \<noteq> AlignmentReportsDone E"
    "Last E \<noteq> BamDone E" "Start E \<noteq> AlignDone E" "Start E \<noteq> AlignmentReportsDone E"
    "Start E \<noteq> BamDone E" "AlignDone E \<noteq> AlignmentReportsDone E"
    "AlignDone E \<noteq> BamDone E" "AlignmentReportsDone E \<noteq> BamDone E"
  using assms by (simp_all add: valid_enum_def)

lemma step_transitions:
  assumes "valid_enum E" "step E completes s = Inr s'"
  shows "(s = Start E \<and> s' = AlignDone E) \<or>
         (s = AlignDone E \<and> s' = AlignmentReportsDone E) \<or>
         (s = AlignmentReportsDone E \<and> s' = BamDone E) \<or>
         (s = Finish E \<and> s' = Finish E)"
  using assms by (auto simp: step_def getNextState_def valid_enum_def split: if_splits)

lemma step_chain:
  assumes "valid_enum E" "\<forall>st. completes st"
  shows "step E completes (Start E) = Inr (AlignDone E)"
    and "step E completes (AlignDone E) = Inr (AlignmentReportsDone E)"
    and "step E completes (AlignmentReportsDone E) = Inr (BamDone E)"
    and "step E completes (Finish E) = Inr (Finish E)"
  using assms by (auto simp: step_def getNextState_def valid_enum_def)

lemma steps_chain:
  assumes "valid_enum E" "\<forall>st. completes st"
  shows "steps E completes 1 (Start E) = Inr (AlignDone E)"
    and "steps E completes 2 (Start E) = Inr (AlignmentReportsDone E)"
    and "steps E completes 3 (Start E) = Inr (BamDone E)"
  using step_chain [OF assms] by (simp_all add: numeral_2_eq_2 numeral_3_eq_3)

text \<open>
  \<open>run\<close> is three calls of \<open>step\<close>: when the stages complete, none of its assertions
  fails and it ends in \<open>BamDone\<close>.
\<close>

lemma run_ends_in_BamDone:
  assumes "valid_enum E" "\<forall>st. completes st"
  shows "run E completes (Start E) = Inr (BamDone E)"
  using step_chain [OF assms] by (simp add: run_def)

text \<open>
  Claim C3, as stated: successive calls of \<open>step\<close> go through five states,
  Start, AlignDone, AlignmentReportsDone, BamDone, Finish, one state per call. The fourth
  call does not do that. Where \<open>Finish\<close> is a fifth state, \<open>step\<close> has no case for
  \<open>BamDone\<close> and fails its assertion; where \<open>Finish\<close> is \<open>BamDone\<close>, the fourth call
  leaves the state that the third call reached.
\<close>

theorem step_fourth_call_counterexample:
  "steps fiveStates allComplete 4 (Start fiveStates) = Inl AssertionFailed \<and>
   steps aliasStates allComplete 4 (Start aliasStates) =
     steps aliasStates allComplete 3 (Start aliasStates)"
  by (simp add: fiveStates_def aliasStates_def allComplete_def step_def getNextState_def
      eval_nat_numeral)

lemma step_BamDone:
  assumes "valid_enum E"
  shows "step E completes (BamDone E) =
           (if BamDone E = Finish E then Inr (BamDone E) else Inl AssertionFailed)"
  using valid_enum_rewind_labels [OF assms] by (auto simp: step_def)

text \<open>
  Claim C3, amended. When the stages complete, successive calls of \<open>step\<close> from
  \<open>Start\<close> reach \<open>AlignDone\<close>, then \<open>AlignmentReportsDone\<close>, then \<open>BamDone\<close>, one
  state per call, and these four states are different; \<open>run\<close> is exactly these three
  calls and ends in \<open>BamDone\<close>. A call in the \<open>Finish\<close> state returns and leaves the
  state unchanged. Every call that returns makes one of these three transitions or stays
  in \<open>Finish\<close>: nothing is skipped or reordered. No call leaves \<open>BamDone\<close> for another
  state: where \<open>Finish\<close> is \<open>BamDone\<close> the call returns with the state unchanged, and
  where it is not the call fails its assertion.
\<close>

theorem step_linear_chain:
  assumes "valid_enum E" "\<forall>st. completes st"
  shows "steps E completes 1 (Start E) = Inr (AlignDone E) \<and>
         steps E completes 2 (Start E) = Inr (AlignmentReportsDone E) \<and>
         steps E completes 3 (Start E) = Inr (BamDone E) \<and>
         distinct [Start E, AlignDone E, AlignmentReportsDone E, BamDone E] \<and>
         step E completes (Finish E) = Inr (Finish E) \<and>
         (\<forall>s s'. step E completes s = Inr s' \<longrightarrow>
            (s = Start E \<and> s' = AlignDone E) \<or>
            (s = AlignDone E \<and> s' = AlignmentReportsDone E) \<or>
            (s = AlignmentReportsDone E \<and> s' = BamDone E) \<or>
            (s = Finish E \<and> s' = Finish E)) \<and>
         (\<forall>s'. step E completes (BamDone E) = Inr s' \<longrightarrow> s' = BamDone E) \<and>
         step E completes (BamDone E) =
           (if BamDone E = Finish E then Inr (BamDone E) else Inl AssertionFailed) \<and>
         run E completes (Start E) = steps E completes 3 (Start E) \<and>
         run E completes (Start E) = Inr (BamDone E)"
proof -
  have d: "distinct [Start E, AlignDone E, AlignmentReportsDone E, BamDone E]"
    using assms(1) by (simp add: valid_enum_def)
  have t: "\<forall>s s'. step E completes s = Inr s' \<longrightarrow>
            (s = Start E \<and> s' = AlignDone E) \<or>
            (s = AlignDone E \<and> s' = AlignmentReportsDone E) \<or>
            (s = AlignmentReportsDone E \<and> s' = BamDone E) \<or>
            (s = Finish E \<and> s' = Finish E)"
    using step_transitions [OF assms(1)] by blast
  have b: "\<forall>s'. step E completes (BamDone E) = Inr s' \<longrightarrow> s' = BamDone E"
  proof (intro allI impI)
    fix s' assume "step E completes (BamDone E) = Inr s'"
    from step_transitions [OF assms(1) this] show "s' = BamDone E"
      using valid_enum_rewind_labels [OF assms(1)] by auto
  qed
  have r: "run E completes (Start E) = Inr (BamDone E)"
    by (rule run_ends_in_BamDone [OF assms])
  have r3: "run E completes (Start E) = steps E completes 3 (Start E)"
    using r steps_chain(3) [OF assms] by simp
  show ?thesis
    using steps_chain [OF assms] step_chain(4) [OF assms] d t b
      step_BamDone [OF assms(1), of completes] r r3
    by blast
qed

theorem step_linear_chain_witness:
  "valid_enum aliasStates \<and> (\<forall>st. allComplete st) \<and>
   steps aliasStates allComplete 1 0 = Inr 1 \<and>
   steps aliasStates allComplete 2 0 = Inr 2 \<and>
   steps aliasStates allComplete 3 0 = Inr 3 \<and>
   step aliasStates allComplete 3 = Inr 3 \<and>
   run aliasStates allComplete 0 = Inr 3"
proof -
  have h: "valid_enum aliasStates" "\<forall>st. allComplete st"
    by (simp_all add: valid_enum_aliasStates allComplete_def)
  have v: "Start aliasStates = 0" "AlignDone aliasStates = 1"
    "AlignmentReportsDone aliasStates = 2" "BamDone aliasStates = 3" "Finish aliasStates = 3"
    by (simp_all add: aliasStates_def)
  show ?thesis
    using h step_linear_chain [OF h] unfolding v by blast
qed

lemma rewind_Last: "rewind E (Last E) s = (s, Inr s)"
  by (simp add: rewind_def)

lemma rewind_Start:
  assumes "valid_enum E"
  shows "rewind E (Start E) s = (Start E, Inr s)"
  using valid_enum_rewind_labels(1) [OF assms] by (auto simp: rewind_def)

lemma rewind_AlignDone:
  assumes "valid_enum E"
  shows "rewind E (AlignDone E) s =
           (if s = Start E then (s, Inl PreConditionException) else (AlignDone E, Inr s))"
  using valid_enum_rewind_labels [OF assms] by (auto simp: rewind_def)

lemma rewind_AlignmentReportsDone:
  assumes "valid_enum E"
  shows "rewind E (AlignmentReportsDone E) s =
           (if s = Start E \<or> s = AlignDone E then (s, Inl PreConditionException)
            else (AlignmentReportsDone E, Inr s))"
  using valid_enum_rewind_labels [OF assms] by (auto simp: rewind_def)

lemma rewind_BamDone:
  assumes "valid_enum E"
  shows "rewind E (BamDone E) s =
           (if s = Start E \<or> s = AlignDone E \<or> s = AlignmentReportsDone E
            then (s, Inl PreConditionException)
            else (BamDone E, Inr s))"
  using valid_enum_rewind_labels [OF assms] by (auto simp: rewind_def)

lemma chain_nth:
  "chain E ! 0 = Start E" "chain E ! Suc 0 = AlignDone E"
  "chain E ! Suc (Suc 0) = AlignmentReportsDone E"
  "chain E ! Suc (Suc (Suc 0)) = BamDone E"
  by (simp_all add: chain_def)

lemma below_4_cases:
  "(n::nat) < 4 \<Longrightarrow> n = 0 \<or> n = Suc 0 \<or> n = Suc (Suc 0) \<or> n = Suc (Suc (Suc 0))"
  by arith

text \<open>
  With the current state at position \<open>i\<close> of the chain and the target at position \<open>j\<close>:
  the target is taken when it is not ahead, and refused otherwise.
\<close>

lemma rewind_chain:
  assumes "valid_enum E" "i < 4" "j < 4"
  shows "rewind E (chain E ! j) (chain E ! i) =
           (if j \<le> i then (chain E ! j, Inr (chain E ! i))
            else (chain E ! i, Inl PreConditionException))"
proof -
  note d = valid_enum_rewind_labels [OF assms(1)]
  note r = rewind_Start [OF assms(1)] rewind_AlignDone [OF assms(1)]
    rewind_AlignmentReportsDone [OF assms(1)] rewind_BamDone [OF assms(1)]
  from below_4_cases [OF assms(3)] show ?thesis
  proof (elim disjE)
    assume "j = 0"
    then show ?thesis by (simp add: chain_nth r)
  next
    assume j: "j = Suc 0"
    from below_4_cases [OF assms(2)] show ?thesis
      using d by (elim disjE) (simp_all add: j chain_nth r)
  next
    assume j: "j = Suc (Suc 0)"
    from below_4_cases [OF assms(2)] show ?thesis
      using d by (elim disjE) (simp_all add: j chain_nth r)
  next
    assume j: "j = Suc (Suc (Suc 0))"
    from below_4_cases [OF assms(2)] show ?thesis
      using d by (elim disjE) (simp_all add: j chain_nth r)
  qed
qed

text \<open>
  Claim C4. \<open>rewind(to)\<close> succeeds, returning the state held before the call with the
  state at the requested target, whenever the target is \<open>Start\<close>, \<open>Last\<close> or a state
  that is not ahead of the current one; when the target is ahead it throws the
  precondition exception and the state is unchanged. The target \<open>Last\<close> names the state
  the workflow is in (``We're at the Last state by definition''), so \<open>rewind(Last)\<close>
  leaves the state where it is. The current state and the other targets are \<open>Start\<close>,
  \<open>AlignDone\<close>, \<open>AlignmentReportsDone\<close> and \<open>BamDone\<close>, at positions \<open>i\<close> and \<open>j\<close>
  of the chain.
\<close>

theorem rewind_not_ahead_or_refused:
  assumes "valid_enum E" "i < 4" "j < 4"
  shows "rewind E (Last E) s = (s, Inr s) \<and>
         rewind E (Start E) s = (Start E, Inr s) \<and>
         (j \<le> i \<longrightarrow>
            rewind E (chain E ! j) (chain E ! i) = (chain E ! j, Inr (chain E ! i))) \<and>
         (i < j \<longrightarrow>
            rewind E (chain E ! j) (chain E ! i) = (chain E ! i, Inl PreConditionException))"
  using rewind_chain [OF assms] rewind_Start [OF assms(1)]
  by (simp add: rewind_Last)

theorem rewind_not_ahead_or_refused_witness:
  "valid_enum aliasStates \<and> (1::nat) < 4 \<and> (3::nat) < 4 \<and>
   rewind aliasStates (- 1) 2 = (2, Inr 2) \<and>
   rewind aliasStates 0 2 = (0, Inr 2) \<and>
   rewind aliasStates 1 3 = (1, Inr 3) \<and>
   rewind aliasStates 3 1 = (1, Inl PreConditionException)"
proof -
  have h: "valid_enum aliasStates" "(1::nat) < 4" "(3::nat) < 4"
    by (simp_all add: valid_enum_aliasStates)
  have v: "Last aliasStates = - 1" "Start aliasStates = 0"
    "chain aliasStates ! 1 = 1" "chain aliasStates ! 3 = 3"
    by (simp_all add: aliasStates_def chain_def)
  show ?thesis
    using h rewind_not_ahead_or_refused [OF h(1) h(3) h(2), of 2]
      rewind_not_ahead_or_refused [OF h(1) h(2) h(3), of 2]
    unfolding v by simp
qed

end
